theory Spec2Isabelle
  imports Complex_Main "HOL-Library.Signed_Division"
begin

section \<open>SpaceFOM data records\<close>

text \<open>
  C++ \<open>double\<close> values are modelled by \<open>real\<close>: the functions embedded below only
  compare, add and subtract times, and copy the remaining values.
\<close>

type_synonym vec3 = "real \<times> real \<times> real"

text \<open>
  Modelled from the spec: \<open>SpaceFOM/QuaternionData.hh\<close> is not part of the sources; the
  data model gives an attitude quaternion as a scalar and a vector of three.
\<close>

record QuaternionData =
  scalar :: real
  vector :: vec3

text \<open>
  Modelled from the spec: \<open>SpaceFOM/SpaceTimeCoordinateData.hh\<close> is not part of the
  sources; the fields \<open>att\<close> and \<open>ang_vel\<close> are the ones
  \<open>RefFrameLagCompInteg.cpp\<close> reads.
\<close>

record SpaceTimeCoordinateData =
  pos :: vec3
  vel :: vec3
  att :: QuaternionData
  ang_vel :: vec3
  time :: real

section \<open>Integrator configuration and its setters\<close>

text \<open>
  The three protected fields of \<open>PhysicalEntityLagCompInteg\<close>; the reference frame
  compensator reads fields of the same names through \<open>TrickHLA::LagCompensationInteg\<close>.
\<close>

record LagCompInteg =
  integ_t :: real
  integ_dt :: real
  integ_tol :: real

definition set_integ_dt :: "real \<Rightarrow> 'a LagCompInteg_scheme \<Rightarrow> 'a LagCompInteg_scheme" where
  "set_integ_dt dt c = c\<lparr>integ_dt := dt\<rparr>"

definition set_integ_tolerance :: "real \<Rightarrow> 'a LagCompInteg_scheme \<Rightarrow> 'a LagCompInteg_scheme" where
  "set_integ_tolerance tol c = c\<lparr>integ_tol := tol\<rparr>"

section \<open>The reference frame lag compensator\<close>

text \<open>The fields of \<open>RefFrameLagCompBase\<close>, on top of the integrator configuration.\<close>

record RefFrameLagCompInteg = LagCompInteg +
  debug :: bool
  compensate_dt :: real
  lag_comp_data :: SpaceTimeCoordinateData
  Q_dot :: QuaternionData

text \<open>
  Modelled from the spec: \<open>SpaceFOM/RefFrameBase.hh\<close> is not part of the sources. The
  frame holds the buffer that is published and received (\<open>packing_data\<close>), the working
  state of the simulation (\<open>working_data\<close>), and the state attribute whose
  \<open>is_received()\<close> the compensator asks through its \<open>state_attr\<close> pointer.
\<close>

record RefFrameBase =
  packing_data :: SpaceTimeCoordinateData
  working_data :: SpaceTimeCoordinateData
  state_attr_is_received :: bool

text \<open>What the calls of the compensator leave behind, in program order.\<close>

datatype call =
    Pack_from_working_data
  | Load_lag_comp_data
  | Derivative_first
  | Compensate real real
  | Unload_lag_comp_data
  | Unpack_into_working_data
  | Print_lag_comp_data
  | Cout_trace real real real
  | Cout string

text \<open>
  The compensator (\<open>this\<close>), the frame it refers to (\<open>ref_frame\<close>) and the log of
  the calls made so far.
\<close>

record world =
  compensator :: RefFrameLagCompInteg
  ref_frame :: RefFrameBase
  calls :: "call list"

text \<open>
  The routines \<open>RefFrameLagCompInteg.cpp\<close> calls and the sources do not hold, taken as
  parameters. The types follow the call sites: the frame's own methods act on the
  frame; loading copies the frame state over to the lag compensated state and unloading
  copies the compensated state to the packing data, as the comments at the calls say
  (\<open>RefFrameLagCompBase.hh\<close> declares the like under the names \<open>copy_state_from_frame\<close>
  and \<open>copy_state_to_frame\<close>); \<open>derivative_first\<close> is a method of \<open>Q_dot\<close> that is
  given the attitude and the angular velocity; \<open>compensate\<close> is the virtual method of
  the compensator.
\<close>

record ops =
  pack_from_working_data :: "RefFrameBase \<Rightarrow> RefFrameBase"
  unpack_into_working_data :: "RefFrameBase \<Rightarrow> RefFrameBase"
  get_time :: "RefFrameBase \<Rightarrow> real"
  load_lag_comp_data :: "RefFrameBase \<Rightarrow> SpaceTimeCoordinateData \<Rightarrow> SpaceTimeCoordinateData"
  unload_lag_comp_data :: "SpaceTimeCoordinateData \<Rightarrow> RefFrameBase \<Rightarrow> RefFrameBase"
  derivative_first :: "QuaternionData \<Rightarrow> vec3 \<Rightarrow> QuaternionData \<Rightarrow> QuaternionData"
  compensate :: "real \<Rightarrow> real \<Rightarrow> RefFrameLagCompInteg \<Rightarrow> RefFrameLagCompInteg"

text \<open>
  What the compensator reads from the federate and the debug handler:
  \<open>get_scenario_time()\<close>, \<open>get_lookahead().get_time_in_seconds()\<close> and
  \<open>DebugHandler::show(DEBUG_LEVEL_6_TRACE, DEBUG_SOURCE_LAG_COMPENSATION)\<close>.
\<close>

record env =
  get_scenario_time :: real
  get_lookahead :: real
  show_trace :: bool

subsection \<open>\<open>initialize\<close>\<close>

datatype error = Terminate_with_message string real real

definition initialize :: "(world \<Rightarrow> error + world) \<Rightarrow> world \<Rightarrow> error + world" where
  "initialize base_initialize w =
     (if integ_dt (compensator w) < integ_tol (compensator w)
      then Inl (Terminate_with_message '' ERROR: Tolerance must be less that the dt!''
                  (integ_dt (compensator w)) (integ_tol (compensator w)))
      else base_initialize w)"

subsection \<open>The calls, each logged\<close>

definition logged :: "call \<Rightarrow> world \<Rightarrow> world" where
  "logged c w = w\<lparr>calls := calls w @ [c]\<rparr>"

definition call_pack_from_working_data :: "ops \<Rightarrow> world \<Rightarrow> world" where
  "call_pack_from_working_data f w =
     logged Pack_from_working_data (w\<lparr>ref_frame := pack_from_working_data f (ref_frame w)\<rparr>)"

definition call_unpack_into_working_data :: "ops \<Rightarrow> world \<Rightarrow> world" where
  "call_unpack_into_working_data f w =
     logged Unpack_into_working_data (w\<lparr>ref_frame := unpack_into_working_data f (ref_frame w)\<rparr>)"

definition call_load_lag_comp_data :: "ops \<Rightarrow> world \<Rightarrow> world" where
  "call_load_lag_comp_data f w =
     logged Load_lag_comp_data
       (w\<lparr>compensator := (compensator w)\<lparr>lag_comp_data :=
            load_lag_comp_data f (ref_frame w) (lag_comp_data (compensator w))\<rparr>\<rparr>)"

definition call_unload_lag_comp_data :: "ops \<Rightarrow> world \<Rightarrow> world" where
  "call_unload_lag_comp_data f w =
     logged Unload_lag_comp_data
       (w\<lparr>ref_frame := unload_lag_comp_data f (lag_comp_data (compensator w)) (ref_frame w)\<rparr>)"

definition call_derivative_first :: "ops \<Rightarrow> world \<Rightarrow> world" where
  "call_derivative_first f w =
     logged Derivative_first
       (w\<lparr>compensator := (compensator w)\<lparr>Q_dot :=
            derivative_first f (att (lag_comp_data (compensator w))) (ang_vel (lag_comp_data (compensator w)))
              (Q_dot (compensator w))\<rparr>\<rparr>)"

definition call_compensate :: "ops \<Rightarrow> real \<Rightarrow> real \<Rightarrow> world \<Rightarrow> world" where
  "call_compensate f t_begin t_end w =
     logged (Compensate t_begin t_end) (w\<lparr>compensator := compensate f t_begin t_end (compensator w)\<rparr>)"

definition print_lag_comp_data :: "world \<Rightarrow> world" where
  "print_lag_comp_data w = logged Print_lag_comp_data w"

text \<open>
  The two guarded outputs: the trace line under \<open>DebugHandler::show\<close>, and the block
  \<open>if ( debug ) { cout << ...; this->print_lag_comp_data(); }\<close>.
\<close>

definition trace_print :: "bool \<Rightarrow> call \<Rightarrow> world \<Rightarrow> world" where
  "trace_print b c w = (if b then logged c w else w)"

definition debug_print :: "string \<Rightarrow> world \<Rightarrow> world" where
  "debug_print s w = (if debug (compensator w) then print_lag_comp_data (logged (Cout s) w) else w)"

subsection \<open>\<open>send_lag_compensation\<close>\<close>

definition send_lag_compensation :: "ops \<Rightarrow> env \<Rightarrow> world \<Rightarrow> world" where
  "send_lag_compensation f e w0 =
     (let begin_t = get_scenario_time e;
          w1 = w0\<lparr>compensator := (compensator w0)\<lparr>compensate_dt := get_lookahead e\<rparr>\<rparr>;
          end_t = begin_t + compensate_dt (compensator w1);
          w2 = trace_print (show_trace e)
                 (Cout_trace (get_scenario_time e) (compensate_dt (compensator w1)) end_t) w1;
          w3 = call_pack_from_working_data f w2;
          w4 = call_load_lag_comp_data f w3;
          w5 = call_derivative_first f w4;
          w6 = debug_print ''Send data before compensation: '' w5;
          w7 = call_compensate f begin_t end_t w6;
          w8 = debug_print ''Send data after compensation: '' w7
      in call_unload_lag_comp_data f w8)"

subsection \<open>\<open>receive_lag_compensation\<close>\<close>

definition receive_lag_compensation :: "ops \<Rightarrow> env \<Rightarrow> world \<Rightarrow> world" where
  "receive_lag_compensation f e w0 =
     (let end_t = get_scenario_time e;
          data_t = get_time f (ref_frame w0);
          w1 = w0\<lparr>compensator := (compensator w0)\<lparr>compensate_dt := end_t - data_t\<rparr>\<rparr>;
          w2 = trace_print (show_trace e)
                 (Cout_trace end_t data_t (compensate_dt (compensator w1))) w1;
          w3 = (if state_attr_is_received (ref_frame w2)
                then
                  (let v1 = call_load_lag_comp_data f w2;
                       v2 = call_derivative_first f v1;
                       v3 = debug_print ''Receive data before compensation: '' v2;
                       v4 = call_compensate f data_t end_t v3
                   in debug_print ''Receive data after compensation: '' v4)
                else w2);
          w4 = call_unload_lag_comp_data f w3
      in call_unpack_into_working_data f w4)"

subsection \<open>Reading the log\<close>

text \<open>Output to \<open>cout\<close> and the debug printer, as opposed to the routines that move data.\<close>

definition is_output :: "call \<Rightarrow> bool" where
  "is_output c =
     (case c of Print_lag_comp_data \<Rightarrow> True | Cout_trace _ _ _ \<Rightarrow> True | Cout _ \<Rightarrow> True
      | _ \<Rightarrow> False)"

definition routine_calls :: "world \<Rightarrow> call list" where
  "routine_calls w = filter (\<lambda>c. \<not> is_output c) (calls w)"

subsection \<open>The frame's routines, from the spec\<close>

text \<open>
  Modelled from the spec: \<open>RefFrameBase::pack_from_working_data\<close> is not part of the
  sources; on send the working state is snapshotted, so packing copies the working state
  into the buffer.
\<close>

definition spec_pack_from_working_data :: "RefFrameBase \<Rightarrow> RefFrameBase" where
  "spec_pack_from_working_data fr = fr\<lparr>packing_data := working_data fr\<rparr>"

text \<open>
  Modelled from the spec: \<open>RefFrameBase::unpack_into_working_data\<close> is not part of the
  sources. The receive flow hands the data to the entity's unpack routine, which moves
  the unpacked data into the working data; a missing receive is not an error, and with
  \<open>is_received\<close> false the working state after the unpack is the working state of
  before (section 8 of the spec). So the move is for a state attribute that was received.
\<close>

definition spec_unpack_into_working_data :: "RefFrameBase \<Rightarrow> RefFrameBase" where
  "spec_unpack_into_working_data fr =
     (if state_attr_is_received fr then fr\<lparr>working_data := packing_data fr\<rparr> else fr)"

text \<open>
  Modelled from the spec: \<open>RefFrameBase::get_time\<close> is not part of the sources; it is the
  data time on the received record.
\<close>

definition spec_get_time :: "RefFrameBase \<Rightarrow> real" where
  "spec_get_time fr = time (packing_data fr)"

text \<open>
  Modelled from the spec: \<open>load_lag_comp_data\<close> is not part of the sources; it loads
  LagCompData from the buffer. The comment at its calls reads \<open>Copy the current RefFrame
  state over to the lag compensated state\<close>.
\<close>

definition spec_load_lag_comp_data ::
  "RefFrameBase \<Rightarrow> SpaceTimeCoordinateData \<Rightarrow> SpaceTimeCoordinateData" where
  "spec_load_lag_comp_data fr d = packing_data fr"

text \<open>
  Modelled from the spec: \<open>unload_lag_comp_data\<close> is not part of the sources; it writes
  LagCompData back to the buffer. The comment at its calls reads \<open>Copy the compensated
  state to the packing data\<close>.
\<close>

definition spec_unload_lag_comp_data ::
  "SpaceTimeCoordinateData \<Rightarrow> RefFrameBase \<Rightarrow> RefFrameBase" where
  "spec_unload_lag_comp_data d fr = fr\<lparr>packing_data := d\<rparr>"

text \<open>
  Modelled from the spec: \<open>QuaternionData::derivative_first\<close> is not part of the
  sources; the quaternion rate is half the product of the attitude quaternion and the
  angular velocity taken as a pure quaternion.
\<close>

definition spec_derivative_first ::
  "QuaternionData \<Rightarrow> vec3 \<Rightarrow> QuaternionData \<Rightarrow> QuaternionData" where
  "spec_derivative_first q w old =
     (case (vector q, w) of ((x, y, z), (wx, wy, wz)) \<Rightarrow>
        \<lparr>scalar = - (x * wx + y * wy + z * wz) / 2,
         vector = ((scalar q * wx + (y * wz - z * wy)) / 2,
                   (scalar q * wy + (z * wx - x * wz)) / 2,
                   (scalar q * wz + (x * wy - y * wx)) / 2)\<rparr>)"

text \<open>The routines of the spec around a given \<open>compensate\<close>, which each subclass supplies.\<close>

definition spec_ops ::
  "(real \<Rightarrow> real \<Rightarrow> RefFrameLagCompInteg \<Rightarrow> RefFrameLagCompInteg) \<Rightarrow> ops" where
  "spec_ops cmp =
     \<lparr>pack_from_working_data = spec_pack_from_working_data,
      unpack_into_working_data = spec_unpack_into_working_data,
      get_time = spec_get_time,
      load_lag_comp_data = spec_load_lag_comp_data,
      unload_lag_comp_data = spec_unload_lag_comp_data,
      derivative_first = spec_derivative_first,
      compensate = cmp\<rparr>"

subsection \<open>Example states\<close>

definition at_origin :: SpaceTimeCoordinateData where
  "at_origin = \<lparr>pos = (0, 0, 0), vel = (0, 0, 0), att = \<lparr>scalar = 1, vector = (0, 0, 0)\<rparr>,
      ang_vel = (0, 0, 0), time = 0\<rparr>"

definition moved :: SpaceTimeCoordinateData where
  "moved = \<lparr>pos = (1, 2, 3), vel = (0, 0, 0), att = \<lparr>scalar = 1, vector = (0, 0, 0)\<rparr>,
      ang_vel = (0, 0, 1), time = 1\<rparr>"

definition example_comp :: "real \<Rightarrow> real \<Rightarrow> RefFrameLagCompInteg" where
  "example_comp dt tol =
     \<lparr>integ_t = 0, integ_dt = dt, integ_tol = tol, debug = False, compensate_dt = 0,
      lag_comp_data = at_origin, Q_dot = \<lparr>scalar = 0, vector = (0, 0, 0)\<rparr>\<rparr>"

definition example_frame :: "bool \<Rightarrow> RefFrameBase" where
  "example_frame received =
     \<lparr>packing_data = moved, working_data = moved, state_attr_is_received = received\<rparr>"

definition example_world :: "real \<Rightarrow> real \<Rightarrow> bool \<Rightarrow> world" where
  "example_world dt tol received =
     \<lparr>compensator = example_comp dt tol, ref_frame = example_frame received, calls = []\<rparr>"

text \<open>
  The default configuration (a step of 0.01 s and a tolerance of 1e-9 s), with the state
  attribute received this cycle and not.
\<close>

definition received_world :: world where
  "received_world = example_world (1 / 100) (1 / 1000000000) True"

definition missing_world :: world where
  "missing_world = example_world (1 / 100) (1 / 1000000000) False"

definition example_env :: env where
  "example_env = \<lparr>get_scenario_time = 2, get_lookahead = 1 / 10, show_trace = False\<rparr>"

text \<open>A stand-in for a subclass's \<open>compensate\<close>: it moves the position along the velocity.\<close>

definition drift :: "real \<Rightarrow> real \<Rightarrow> RefFrameLagCompInteg \<Rightarrow> RefFrameLagCompInteg" where
  "drift t_begin t_end c =
     (case (pos (lag_comp_data c), vel (lag_comp_data c)) of ((x, y, z), (vx, vy, vz)) \<Rightarrow>
        c\<lparr>lag_comp_data := (lag_comp_data c)
             \<lparr>pos := (x + vx * (t_end - t_begin), y + vy * (t_end - t_begin),
                      z + vz * (t_end - t_begin)),
              time := t_end\<rparr>\<rparr>)"

section \<open>The Trick thread coordinator\<close>

text \<open>
  Only the declarations of \<open>TrickThreadCoordinator.hh\<close> are part of the sources; the
  bodies are in \<open>TrickThreadCoordinator.cpp\<close>, which is not. The operations below follow
  the words of the spec.
\<close>

datatype ThreadState =
  NOT_ASSOCIATED | READY_TO_SEND | SEND_PENDING | DATA_AVAILABLE | DATA_CONSUMED

record ThreadAssociation =
  thread_id :: nat
  data_cycle_micros :: int
  owned_object_names :: "string list"

text \<open>
  Modelled from the spec: the state of the coordinator, which the missing
  \<open>TrickThreadCoordinator.cpp\<close> maintains. \<open>manager_obj_names\<close> lists the manager's object
  instances, so that an object index is a position in it.
\<close>

record TrickThreadCoordinator =
  manager_obj_names :: "string list"
  main_thread_data_cycle_micros :: int
  any_thread_associated :: bool
  associations :: "ThreadAssociation list"
  thread_state :: "nat \<Rightarrow> ThreadState"

text \<open>
  Modelled from the spec: the conversion of a cycle time in seconds to microseconds,
  which rounds half to even at the microsecond boundary.
\<close>

definition to_micros :: "real \<Rightarrow> int" where
  "to_micros secs =
     (let x = secs * 1000000; f = \<lfloor>x\<rfloor> in
      if x - of_int f < 1 / 2 then f
      else if 1 / 2 < x - of_int f then f + 1
      else if even f then f else f + 1)"

definition association_of_thread :: "TrickThreadCoordinator \<Rightarrow> nat \<Rightarrow> ThreadAssociation option" where
  "association_of_thread tc k = find (\<lambda>a. thread_id a = k) (associations tc)"

definition association_of_name :: "TrickThreadCoordinator \<Rightarrow> string \<Rightarrow> ThreadAssociation option" where
  "association_of_name tc n = find (\<lambda>a. n \<in> set (owned_object_names a)) (associations tc)"

definition association_of_obj :: "TrickThreadCoordinator \<Rightarrow> nat \<Rightarrow> ThreadAssociation option" where
  "association_of_obj tc i =
     (if i < length (manager_obj_names tc) then association_of_name tc (manager_obj_names tc ! i)
      else None)"

definition positive_multiple :: "int \<Rightarrow> int \<Rightarrow> bool" where
  "positive_multiple a b = (0 < b \<and> 0 < a \<and> a mod b = 0)"

definition owned_by_other_thread :: "TrickThreadCoordinator \<Rightarrow> nat \<Rightarrow> string \<Rightarrow> bool" where
  "owned_by_other_thread tc k n =
     list_ex (\<lambda>a. thread_id a \<noteq> k \<and> n \<in> set (owned_object_names a)) (associations tc)"

datatype association_error =
    Main_thread_reserved
  | Cycle_not_multiple int int
  | Object_already_associated

text \<open>
  Modelled from the spec: \<open>associate_to_trick_child_thread\<close>, whose body is not in the
  sources: thread 0 is reserved for the main thread, the data cycle must be a positive
  integer multiple of the main cycle, an object name owned by another thread is rejected,
  and otherwise the association is recorded, the thread becomes ready to send and
  \<open>any_thread_associated\<close> is set.
\<close>

definition associate_to_trick_child_thread ::
  "TrickThreadCoordinator \<Rightarrow> nat \<Rightarrow> real \<Rightarrow> string list \<Rightarrow>
     association_error + TrickThreadCoordinator" where
  "associate_to_trick_child_thread tc k data_cycle obj_instance_names =
     (let micros = to_micros data_cycle in
      if k = 0 then Inl Main_thread_reserved
      else if \<not> positive_multiple micros (main_thread_data_cycle_micros tc)
      then Inl (Cycle_not_multiple micros (main_thread_data_cycle_micros tc))
      else if list_ex (owned_by_other_thread tc k) obj_instance_names
      then Inl Object_already_associated
      else Inr (tc\<lparr>any_thread_associated := True,
                  associations := filter (\<lambda>a. thread_id a \<noteq> k) (associations tc) @
                    [\<lparr>thread_id = k, data_cycle_micros = micros,
                      owned_object_names = obj_instance_names\<rparr>],
                  thread_state := (thread_state tc)(k := READY_TO_SEND)\<rparr>))"

text \<open>
  Modelled from the spec: \<open>on_data_cycle_boundary_for_thread\<close>, whose body is not in the
  sources: \<open>sim_time_micros % cycle[thread_id] == 0\<close>, with the remainder of C++
  (truncated, \<open>smod\<close>). The header speaks of a valid cycle time; a thread with none is
  not on a boundary.
\<close>

definition on_data_cycle_boundary_for_thread :: "TrickThreadCoordinator \<Rightarrow> nat \<Rightarrow> int \<Rightarrow> bool" where
  "on_data_cycle_boundary_for_thread tc k sim_time_micros =
     (case association_of_thread tc k of
        None \<Rightarrow> False
      | Some a \<Rightarrow> sim_time_micros smod data_cycle_micros a = 0)"

text \<open>
  Modelled from the spec: \<open>get_data_cycle_time_micros_for_obj\<close>, whose body is not in the
  sources: the data cycle time of the configured object index, or the default.
\<close>

definition get_data_cycle_time_micros_for_obj :: "TrickThreadCoordinator \<Rightarrow> nat \<Rightarrow> int \<Rightarrow> int" where
  "get_data_cycle_time_micros_for_obj tc obj_index default_data_cycle_micros =
     (case association_of_obj tc obj_index of
        None \<Rightarrow> default_data_cycle_micros
      | Some a \<Rightarrow> data_cycle_micros a)"

definition example_coordinator :: TrickThreadCoordinator where
  "example_coordinator =
     \<lparr>manager_obj_names = [''A'', ''B'', ''C''],
      main_thread_data_cycle_micros = 10000,
      any_thread_associated = True,
      associations = [\<lparr>thread_id = 1, data_cycle_micros = 20000, owned_object_names = [''A'']\<rparr>],
      thread_state = (\<lambda>_. NOT_ASSOCIATED)(1 := READY_TO_SEND)\<rparr>"

section \<open>The ownership handler of the sine example\<close>

datatype ownership_action = PULL | PUSH

text \<open>
  Modelled from the spec: a request names an attribute or none (all attributes) and a
  scenario time or none (as soon as possible).
\<close>

record OwnershipRequest =
  attribute_name :: "string option"
  action :: ownership_action
  scenario_time :: "real option"

text \<open>Modelled from the spec: \<open>TrickHLA::Object\<close>, of which the handler reads the attribute names.\<close>

record Object =
  attribute_FOM_names :: "string list"

record OwnershipHandler =
  object :: "Object option"
  requests :: "OwnershipRequest list"

text \<open>
  Modelled from the spec: \<open>OwnershipHandler.cpp\<close> is not part of the sources. The base
  callback binds the handler to its object; each of the four shapes of \<open>pull_ownership\<close>
  and \<open>push_ownership\<close> appends one request to the insertion-ordered queue.
\<close>

definition OwnershipHandler_initialize_callback :: "Object \<Rightarrow> OwnershipHandler \<Rightarrow> OwnershipHandler" where
  "OwnershipHandler_initialize_callback obj h = h\<lparr>object := Some obj\<rparr>"

definition get_attribute_FOM_names :: "OwnershipHandler \<Rightarrow> string list" where
  "get_attribute_FOM_names h = (case object h of None \<Rightarrow> [] | Some obj \<Rightarrow> attribute_FOM_names obj)"

definition enqueue :: "OwnershipRequest \<Rightarrow> OwnershipHandler \<Rightarrow> OwnershipHandler" where
  "enqueue r h = h\<lparr>requests := requests h @ [r]\<rparr>"

definition pull_ownership :: "OwnershipHandler \<Rightarrow> OwnershipHandler" where
  "pull_ownership = enqueue \<lparr>attribute_name = None, action = PULL, scenario_time = None\<rparr>"

definition pull_ownership_at :: "real \<Rightarrow> OwnershipHandler \<Rightarrow> OwnershipHandler" where
  "pull_ownership_at t = enqueue \<lparr>attribute_name = None, action = PULL, scenario_time = Some t\<rparr>"

definition pull_ownership_attr :: "string \<Rightarrow> OwnershipHandler \<Rightarrow> OwnershipHandler" where
  "pull_ownership_attr n = enqueue \<lparr>attribute_name = Some n, action = PULL, scenario_time = None\<rparr>"

definition pull_ownership_attr_at :: "string \<Rightarrow> real \<Rightarrow> OwnershipHandler \<Rightarrow> OwnershipHandler" where
  "pull_ownership_attr_at n t =
     enqueue \<lparr>attribute_name = Some n, action = PULL, scenario_time = Some t\<rparr>"

definition push_ownership :: "OwnershipHandler \<Rightarrow> OwnershipHandler" where
  "push_ownership = enqueue \<lparr>attribute_name = None, action = PUSH, scenario_time = None\<rparr>"

definition push_ownership_at :: "real \<Rightarrow> OwnershipHandler \<Rightarrow> OwnershipHandler" where
  "push_ownership_at t = enqueue \<lparr>attribute_name = None, action = PUSH, scenario_time = Some t\<rparr>"

definition push_ownership_attr :: "string \<Rightarrow> OwnershipHandler \<Rightarrow> OwnershipHandler" where
  "push_ownership_attr n = enqueue \<lparr>attribute_name = Some n, action = PUSH, scenario_time = None\<rparr>"

definition push_ownership_attr_at :: "string \<Rightarrow> real \<Rightarrow> OwnershipHandler \<Rightarrow> OwnershipHandler" where
  "push_ownership_attr_at n t =
     enqueue \<lparr>attribute_name = Some n, action = PUSH, scenario_time = Some t\<rparr>"

subsection \<open>\<open>initialize_callback\<close>\<close>

text \<open>The \<open>switch\<close> of \<open>SineOwnershipHandler::initialize_callback\<close>, for any test case.\<close>

definition initialize_callback_case :: "int \<Rightarrow> Object \<Rightarrow> OwnershipHandler \<Rightarrow> OwnershipHandler" where
  "initialize_callback_case test_case obj h0 =
     (let h = OwnershipHandler_initialize_callback obj h0;
          attr_FOM_names = get_attribute_FOM_names h
      in if test_case = 0 then
           (let h1 = pull_ownership h;
                h2 = pull_ownership_at 3 h1;
                h3 = pull_ownership_at 5 h2;
                h4 = pull_ownership_attr ''Time'' h3;
                h5 = pull_ownership_attr_at ''Value'' (61 / 10) h4
            in fold (\<lambda>n. pull_ownership_attr_at n 7) attr_FOM_names h5)
         else if test_case = 1 then
           (let h1 = push_ownership h;
                h2 = push_ownership_at 3 h1;
                h3 = push_ownership_at 5 h2;
                h4 = push_ownership_attr ''Time'' h3;
                h5 = push_ownership_attr_at ''Value'' (61 / 10) h4
            in fold (\<lambda>n. push_ownership_attr_at n 7) attr_FOM_names h5)
         else if test_case = 2 then
           (let h1 = push_ownership h;
                h2 = pull_ownership_at 3 h1;
                h3 = push_ownership_at 5 h2;
                h4 = pull_ownership_at 7 h3
            in push_ownership_attr_at ''Value'' 9 h4)
         else h)"

definition TEST_CASE :: int where
  "TEST_CASE = 2"

definition initialize_callback :: "Object \<Rightarrow> OwnershipHandler \<Rightarrow> OwnershipHandler" where
  "initialize_callback obj h0 = initialize_callback_case TEST_CASE obj h0"

subsection \<open>When the queued requests fire\<close>

text \<open>
  Modelled from the spec: the framework that drains the queue is not part of the
  sources. A timed request fires at the matching scenario time; requests without a time
  fire before any timed request, and requests of equal time in insertion order.
\<close>

definition fires_at :: "real \<Rightarrow> OwnershipRequest list \<Rightarrow> OwnershipRequest list" where
  "fires_at t q = filter (\<lambda>r. scenario_time r = Some t) q"

definition firing_key :: "OwnershipRequest \<Rightarrow> real" where
  "firing_key r = (case scenario_time r of None \<Rightarrow> 0 | Some t \<Rightarrow> t)"

definition firing_order :: "OwnershipRequest list \<Rightarrow> OwnershipRequest list" where
  "firing_order q =
     filter (\<lambda>r. scenario_time r = None) q @
     sort_key firing_key (filter (\<lambda>r. scenario_time r \<noteq> None) q)"

text \<open>The five requests of the mixed test case, as \<open>case 2\<close> of the switch issues them.\<close>

definition mixed_script :: "OwnershipRequest list" where
  "mixed_script =
     [\<lparr>attribute_name = None, action = PUSH, scenario_time = None\<rparr>,
      \<lparr>attribute_name = None, action = PULL, scenario_time = Some 3\<rparr>,
      \<lparr>attribute_name = None, action = PUSH, scenario_time = Some 5\<rparr>,
      \<lparr>attribute_name = None, action = PULL, scenario_time = Some 7\<rparr>,
      \<lparr>attribute_name = Some ''Value'', action = PUSH, scenario_time = Some 9\<rparr>]"

definition new_handler :: OwnershipHandler where
  "new_handler = \<lparr>object = None, requests = []\<rparr>"

definition sine_object :: Object where
  "sine_object = \<lparr>attribute_FOM_names = [''Time'', ''Value'']\<rparr>"

section \<open>Properties of the lag compensator\<close>

subsection \<open>Each logged call, seen through the projections\<close>

lemma logged_simps:
  "compensator (logged c w) = compensator w"
  "ref_frame (logged c w) = ref_frame w"
  "calls (logged c w) = calls w @ [c]"
  "routine_calls (logged c w) = routine_calls w @ (if is_output c then [] else [c])"
  by (simp_all add: logged_def routine_calls_def)

lemma routine_calls_update:
  "routine_calls (w\<lparr>compensator := c\<rparr>) = routine_calls w"
  "routine_calls (w\<lparr>ref_frame := r\<rparr>) = routine_calls w"
  by (simp_all add: routine_calls_def)

lemma is_output_simps:
  "\<not> is_output Pack_from_working_data" "\<not> is_output Load_lag_comp_data"
  "\<not> is_output Derivative_first" "\<not> is_output (Compensate a b)"
  "\<not> is_output Unload_lag_comp_data" "\<not> is_output Unpack_into_working_data"
  "is_output Print_lag_comp_data" "is_output (Cout_trace x y z)" "is_output (Cout s)"
  by (simp_all add: is_output_def)

lemma call_pack_simps:
  "compensator (call_pack_from_working_data f w) = compensator w"
  "ref_frame (call_pack_from_working_data f w) = pack_from_working_data f (ref_frame w)"
  "routine_calls (call_pack_from_working_data f w) = routine_calls w @ [Pack_from_working_data]"
  by (simp_all add: call_pack_from_working_data_def logged_simps routine_calls_update
      is_output_simps)

lemma call_unpack_simps:
  "compensator (call_unpack_into_working_data f w) = compensator w"
  "ref_frame (call_unpack_into_working_data f w) = unpack_into_working_data f (ref_frame w)"
  "routine_calls (call_unpack_into_working_data f w) =
     routine_calls w @ [Unpack_into_working_data]"
  by (simp_all add: call_unpack_into_working_data_def logged_simps routine_calls_update
      is_output_simps)

lemma call_load_simps:
  "compensator (call_load_lag_comp_data f w) =
     (compensator w)\<lparr>lag_comp_data :=
        load_lag_comp_data f (ref_frame w) (lag_comp_data (compensator w))\<rparr>"
  "ref_frame (call_load_lag_comp_data f w) = ref_frame w"
  "routine_calls (call_load_lag_comp_data f w) = routine_calls w @ [Load_lag_comp_data]"
  by (simp_all add: call_load_lag_comp_data_def logged_simps routine_calls_update
      is_output_simps)

lemma call_unload_simps:
  "compensator (call_unload_lag_comp_data f w) = compensator w"
  "ref_frame (call_unload_lag_comp_data f w) =
     unload_lag_comp_data f (lag_comp_data (compensator w)) (ref_frame w)"
  "routine_calls (call_unload_lag_comp_data f w) = routine_calls w @ [Unload_lag_comp_data]"
  by (simp_all add: call_unload_lag_comp_data_def logged_simps routine_calls_update
      is_output_simps)

lemma call_derivative_simps:
  "compensator (call_derivative_first f w) =
     (compensator w)\<lparr>Q_dot := derivative_first f (att (lag_comp_data (compensator w)))
        (ang_vel (lag_comp_data (compensator w))) (Q_dot (compensator w))\<rparr>"
  "ref_frame (call_derivative_first f w) = ref_frame w"
  "routine_calls (call_derivative_first f w) = routine_calls w @ [Derivative_first]"
  by (simp_all add: call_derivative_first_def logged_simps routine_calls_update
      is_output_simps)

lemma call_compensate_simps:
  "compensator (call_compensate f b t w) = compensate f b t (compensator w)"
  "ref_frame (call_compensate f b t w) = ref_frame w"
  "routine_calls (call_compensate f b t w) = routine_calls w @ [Compensate b t]"
  by (simp_all add: call_compensate_def logged_simps routine_calls_update is_output_simps)

text \<open>Output changes neither the compensator nor the frame nor the routine calls.\<close>

lemma debug_print_simps:
  "compensator (debug_print s w) = compensator w"
  "ref_frame (debug_print s w) = ref_frame w"
  "routine_calls (debug_print s w) = routine_calls w"
  by (simp_all add: debug_print_def print_lag_comp_data_def logged_simps is_output_simps)

lemma trace_print_simps:
  "compensator (trace_print b (Cout_trace x y z) w) = compensator w"
  "ref_frame (trace_print b (Cout_trace x y z) w) = ref_frame w"
  "routine_calls (trace_print b (Cout_trace x y z) w) = routine_calls w"
  by (simp_all add: trace_print_def logged_simps is_output_simps)

lemmas stage_simps = call_pack_simps call_unpack_simps call_load_simps call_unload_simps
  call_derivative_simps call_compensate_simps debug_print_simps trace_print_simps
  routine_calls_update

lemmas example_defs = received_world_def missing_world_def example_world_def
  example_comp_def example_frame_def example_env_def at_origin_def moved_def

lemmas spec_ops_defs = spec_ops_def spec_pack_from_working_data_def
  spec_unpack_into_working_data_def spec_get_time_def spec_load_lag_comp_data_def
  spec_unload_lag_comp_data_def spec_derivative_first_def drift_def

subsection \<open>\<open>initialize\<close>\<close>

text \<open>
  Claim C1, as the code has it. \<open>initialize\<close> compares the two values once, with
  \<open>integ_dt < integ_tol\<close>: it terminates with the message whenever the tolerance is above
  the step, and it goes on to the base class's \<open>initialize\<close> whenever the tolerance is
  below the step, whatever the sign of the tolerance. The sign of \<open>integ_tol\<close> is not
  looked at anywhere.
\<close>

theorem initialize_fatal_when_dt_below_tol:
  "(integ_dt (compensator w) < integ_tol (compensator w) \<longrightarrow>
      initialize base_initialize w =
        Inl (Terminate_with_message '' ERROR: Tolerance must be less that the dt!''
               (integ_dt (compensator w)) (integ_tol (compensator w))))
   \<and> (integ_tol (compensator w) < integ_dt (compensator w) \<longrightarrow>
        initialize base_initialize w = base_initialize w)"
  by (simp add: initialize_def)

theorem initialize_fatal_when_dt_below_tol_witness:
  "initialize Inr (example_world 1 2 True) =
      Inl (Terminate_with_message '' ERROR: Tolerance must be less that the dt!'' 1 2)
   \<and> initialize Inr received_world = Inr received_world"
  using initialize_fatal_when_dt_below_tol [of "example_world 1 2 True" Inr]
    initialize_fatal_when_dt_below_tol [of received_world Inr]
  by (simp add: example_defs)

text \<open>
  With a step of 1 and a tolerance of 0 the invariant \<open>integ_dt > integ_tol > 0\<close> is
  violated, and \<open>initialize\<close> does not terminate: it returns what the base class returns.
\<close>

theorem initialize_nonpositive_tol_not_fatal:
  "\<not> (integ_tol (compensator (example_world 1 0 True))
         < integ_dt (compensator (example_world 1 0 True))
       \<and> 0 < integ_tol (compensator (example_world 1 0 True)))
   \<and> integ_tol (compensator (example_world 1 0 True)) \<le> 0
   \<and> initialize Inr (example_world 1 0 True) = Inr (example_world 1 0 True)"
  by (simp add: initialize_def example_defs)

text \<open>
  The comparison is strict, so a tolerance equal to the step passes too, although the
  message of the check asks for a tolerance less than the step.
\<close>

lemma initialize_equal_tol_and_dt:
  "initialize Inr (example_world 1 1 True) = Inr (example_world 1 1 True)"
  by (simp add: initialize_def example_defs)

subsection \<open>\<open>send_lag_compensation\<close>\<close>

text \<open>
  Claim C3. A call of \<open>send_lag_compensation\<close> takes the scenario time as the begin time
  and the begin time plus the lookahead as the end time; it packs the working state,
  loads it into the lag compensation data, computes \<open>Q_dot\<close> from the attitude and the
  angular velocity of that data, calls \<open>compensate\<close> once, with the begin and the end
  time, and then unloads the lag compensation data into the buffer: the routine calls
  it adds to the log are these five, in this order.
\<close>

theorem send_lag_compensation_sequence:
  "compensator (send_lag_compensation f e w) =
     compensate f (get_scenario_time e) (get_scenario_time e + get_lookahead e)
       ((compensator w)\<lparr>compensate_dt := get_lookahead e,
          lag_comp_data :=
            load_lag_comp_data f (pack_from_working_data f (ref_frame w))
              (lag_comp_data (compensator w)),
          Q_dot := derivative_first f
            (att (load_lag_comp_data f (pack_from_working_data f (ref_frame w))
                    (lag_comp_data (compensator w))))
            (ang_vel (load_lag_comp_data f (pack_from_working_data f (ref_frame w))
                    (lag_comp_data (compensator w))))
            (Q_dot (compensator w))\<rparr>)
   \<and> ref_frame (send_lag_compensation f e w) =
       unload_lag_comp_data f (lag_comp_data (compensator (send_lag_compensation f e w)))
         (pack_from_working_data f (ref_frame w))
   \<and> routine_calls (send_lag_compensation f e w) =
       routine_calls w @
       [Pack_from_working_data, Load_lag_comp_data, Derivative_first,
        Compensate (get_scenario_time e) (get_scenario_time e + get_lookahead e),
        Unload_lag_comp_data]"
  by (simp add: send_lag_compensation_def Let_def stage_simps)

theorem send_lag_compensation_sequence_witness:
  "routine_calls (send_lag_compensation (spec_ops drift) example_env received_world) =
     [Pack_from_working_data, Load_lag_comp_data, Derivative_first,
      Compensate 2 (21 / 10), Unload_lag_comp_data]
   \<and> packing_data (ref_frame (send_lag_compensation (spec_ops drift) example_env received_world)) =
       moved\<lparr>time := 21 / 10\<rparr>
   \<and> Q_dot (compensator (send_lag_compensation (spec_ops drift) example_env received_world)) =
       \<lparr>scalar = 0, vector = (0, 0, 1 / 2)\<rparr>"
  using send_lag_compensation_sequence [of "spec_ops drift" example_env received_world]
  by (simp add: example_defs spec_ops_defs routine_calls_def)

subsection \<open>\<open>receive_lag_compensation\<close>\<close>

text \<open>
  Claim C2. A call of \<open>receive_lag_compensation\<close> takes the scenario time as the end time
  and the data time of the frame as the begin time, and stores their difference in
  \<open>compensate_dt\<close>. If the state attribute was received, it loads the lag compensation
  data, computes \<open>Q_dot\<close> from it and calls \<open>compensate\<close> with the begin and the end
  time. In both cases it then unloads the lag compensation data and hands the frame to
  the unpack routine.
\<close>

theorem receive_lag_compensation_sequence:
  "compensator (receive_lag_compensation f e w) =
     (if state_attr_is_received (ref_frame w)
      then compensate f (get_time f (ref_frame w)) (get_scenario_time e)
        ((compensator w)\<lparr>compensate_dt := get_scenario_time e - get_time f (ref_frame w),
           lag_comp_data := load_lag_comp_data f (ref_frame w) (lag_comp_data (compensator w)),
           Q_dot := derivative_first f
             (att (load_lag_comp_data f (ref_frame w) (lag_comp_data (compensator w))))
             (ang_vel (load_lag_comp_data f (ref_frame w) (lag_comp_data (compensator w))))
             (Q_dot (compensator w))\<rparr>)
      else (compensator w)\<lparr>compensate_dt := get_scenario_time e - get_time f (ref_frame w)\<rparr>)
   \<and> ref_frame (receive_lag_compensation f e w) =
       unpack_into_working_data f
         (unload_lag_comp_data f
            (lag_comp_data (compensator (receive_lag_compensation f e w))) (ref_frame w))
   \<and> routine_calls (receive_lag_compensation f e w) =
       routine_calls w @
       (if state_attr_is_received (ref_frame w)
        then [Load_lag_comp_data, Derivative_first,
              Compensate (get_time f (ref_frame w)) (get_scenario_time e)]
        else []) @
       [Unload_lag_comp_data, Unpack_into_working_data]"
  by (simp add: receive_lag_compensation_def Let_def stage_simps)

theorem receive_lag_compensation_sequence_witness:
  "routine_calls (receive_lag_compensation (spec_ops drift) example_env received_world) =
     [Load_lag_comp_data, Derivative_first, Compensate 1 2,
      Unload_lag_comp_data, Unpack_into_working_data]
   \<and> working_data (ref_frame (receive_lag_compensation (spec_ops drift) example_env received_world)) =
       moved\<lparr>time := 2\<rparr>
   \<and> routine_calls (receive_lag_compensation (spec_ops drift) example_env missing_world) =
       [Unload_lag_comp_data, Unpack_into_working_data]"
  using receive_lag_compensation_sequence [of "spec_ops drift" example_env received_world]
    receive_lag_compensation_sequence [of "spec_ops drift" example_env missing_world]
  by (simp add: example_defs spec_ops_defs routine_calls_def)

text \<open>
  Claim C9. When the state attribute was not received, the call still overwrites
  \<open>compensate_dt\<close> with the scenario time minus the data time, and that is its only
  change to the compensator: the lag compensation data and \<open>Q_dot\<close> are as before, and
  the only routines called are the unload and the unpack. When the attribute was
  received, the compensator that \<open>compensate\<close> is given holds that difference too.
\<close>

theorem receive_missing_only_sets_compensate_dt:
  "(\<not> state_attr_is_received (ref_frame w) \<longrightarrow>
      compensator (receive_lag_compensation f e w) =
        (compensator w)\<lparr>compensate_dt := get_scenario_time e - get_time f (ref_frame w)\<rparr>
      \<and> compensate_dt (compensator (receive_lag_compensation f e w)) =
          get_scenario_time e - get_time f (ref_frame w)
      \<and> lag_comp_data (compensator (receive_lag_compensation f e w)) =
          lag_comp_data (compensator w)
      \<and> Q_dot (compensator (receive_lag_compensation f e w)) = Q_dot (compensator w)
      \<and> routine_calls (receive_lag_compensation f e w) =
          routine_calls w @ [Unload_lag_comp_data, Unpack_into_working_data])
   \<and> (state_attr_is_received (ref_frame w) \<longrightarrow>
      (\<exists>c. compensate_dt c = get_scenario_time e - get_time f (ref_frame w)
         \<and> compensator (receive_lag_compensation f e w) =
             compensate f (get_time f (ref_frame w)) (get_scenario_time e) c))"
proof (cases "state_attr_is_received (ref_frame w)")
  case False
  then show ?thesis
    by (simp add: receive_lag_compensation_def Let_def stage_simps)
next
  case True
  let ?d = "load_lag_comp_data f (ref_frame w) (lag_comp_data (compensator w))"
  let ?c = "(compensator w)\<lparr>compensate_dt := get_scenario_time e - get_time f (ref_frame w),
       lag_comp_data := ?d,
       Q_dot := derivative_first f (att ?d) (ang_vel ?d) (Q_dot (compensator w))\<rparr>"
  have "compensate_dt ?c = get_scenario_time e - get_time f (ref_frame w)"
    by simp
  moreover from True have "compensator (receive_lag_compensation f e w) =
      compensate f (get_time f (ref_frame w)) (get_scenario_time e) ?c"
    by (simp add: receive_lag_compensation_def Let_def stage_simps)
  ultimately show ?thesis using True by blast
qed

theorem receive_missing_only_sets_compensate_dt_witness:
  "\<not> state_attr_is_received (ref_frame missing_world)
   \<and> compensator (receive_lag_compensation (spec_ops drift) example_env missing_world) =
       (example_comp (1 / 100) (1 / 1000000000))\<lparr>compensate_dt := 1\<rparr>
   \<and> lag_comp_data (compensator (receive_lag_compensation (spec_ops drift) example_env missing_world)) =
       at_origin
   \<and> state_attr_is_received (ref_frame received_world)
   \<and> (\<exists>c. compensate_dt c = 1
         \<and> compensator (receive_lag_compensation (spec_ops drift) example_env received_world) =
             drift 1 2 c)"
  using receive_missing_only_sets_compensate_dt [of missing_world "spec_ops drift" example_env]
    receive_missing_only_sets_compensate_dt [of received_world "spec_ops drift" example_env]
  by (simp add: example_defs spec_ops_def spec_get_time_def)




subsection \<open>The setters of the integrator configuration\<close>

text \<open>
  Claim C10. \<open>set_integ_dt\<close> and \<open>set_integ_tolerance\<close> store the value they are given and
  leave every other field alone; they compare nothing, so any step and any tolerance
  can be installed, in any relation to each other.
\<close>

theorem setters_store_unchecked:
  "set_integ_dt v c = c\<lparr>integ_dt := v\<rparr>
   \<and> set_integ_tolerance u c = c\<lparr>integ_tol := u\<rparr>
   \<and> integ_dt (set_integ_tolerance u (set_integ_dt v c)) = v
   \<and> integ_tol (set_integ_tolerance u (set_integ_dt v c)) = u
   \<and> integ_t (set_integ_tolerance u (set_integ_dt v c)) = integ_t c
   \<and> LagCompInteg.more (set_integ_tolerance u (set_integ_dt v c)) = LagCompInteg.more c"
  by (simp add: set_integ_dt_def set_integ_tolerance_def)

text \<open>
  On a compensator that passed \<open>initialize\<close>, the setters install a negative step and a
  tolerance above it; a second \<open>initialize\<close> would terminate on the result.
\<close>

theorem setters_store_unchecked_witness:
  "initialize Inr received_world = Inr received_world
   \<and> set_integ_tolerance 5 (set_integ_dt (- 1) (compensator received_world)) = example_comp (- 1) 5
   \<and> isl (initialize Inr
        (received_world\<lparr>compensator := set_integ_tolerance 5 (set_integ_dt (- 1) (compensator received_world))\<rparr>))"
  using setters_store_unchecked [of "- 1" "compensator received_world" 5]
  by (simp add: initialize_def set_integ_dt_def set_integ_tolerance_def example_defs)

section \<open>Properties of the thread coordinator\<close>

lemma smod_zero_iff: "(t::int) smod c = 0 \<longleftrightarrow> t mod c = 0"
proof -
  have "t smod c = 0 \<longleftrightarrow> \<bar>t\<bar> mod \<bar>c\<bar> = 0"
    by (auto simp: smod_int_alt_def sgn_if)
  also have "\<dots> \<longleftrightarrow> c dvd t" by (simp add: mod_eq_0_iff_dvd)
  also have "\<dots> \<longleftrightarrow> t mod c = 0" by (simp add: mod_eq_0_iff_dvd)
  finally show ?thesis .
qed

lemma find_append_if:
  "find P (xs @ ys) = (case find P xs of None \<Rightarrow> find P ys | Some x \<Rightarrow> Some x)"
  by (induction xs) auto

lemma find_filter_not: "find P (filter (\<lambda>x. \<not> P x) xs) = None"
  by (induction xs) auto

text \<open>Over a positive main cycle, the test of the model is the one the spec words.\<close>

lemma positive_multiple_iff:
  "0 < b \<Longrightarrow> positive_multiple a b \<longleftrightarrow> (\<exists>n>0. a = n * b)"
proof
  assume b: "0 < b" and "positive_multiple a b"
  then have a: "0 < a" and "a mod b = 0" by (simp_all add: positive_multiple_def)
  then have "b dvd a" by (simp add: mod_eq_0_iff_dvd)
  then obtain n where "a = b * n" ..
  then have n: "a = n * b" by (simp add: mult.commute)
  with a b have "0 < n" by (simp add: zero_less_mult_iff)
  with n show "\<exists>n>0. a = n * b" by blast
next
  assume "0 < b" and "\<exists>n>0. a = n * b"
  then show "positive_multiple a b" by (auto simp: positive_multiple_def)
qed

lemma to_micros_examples:
  "to_micros (2 / 100) = 20000" "to_micros (15 / 1000) = 15000"
  "to_micros (25 / 10000000) = 2" "to_micros (35 / 10000000) = 4"
  by (simp_all add: to_micros_def Let_def)

lemmas coordinator_defs = example_coordinator_def association_of_thread_def
  association_of_name_def association_of_obj_def owned_by_other_thread_def
  positive_multiple_def to_micros_def

text \<open>
  Claim C5. An association is rejected when the thread is thread 0, when the data cycle
  is not a positive integer multiple of the main thread's cycle, or when one of the
  object names is owned by another thread. Otherwise it is recorded: the thread has the
  given cycle and names, it is ready to send, and \<open>any_thread_associated\<close> holds.
\<close>

theorem associate_to_trick_child_thread_checks:
  "(k = 0 \<or> \<not> positive_multiple (to_micros data_cycle) (main_thread_data_cycle_micros tc)
      \<or> list_ex (owned_by_other_thread tc k) names
    \<longrightarrow> isl (associate_to_trick_child_thread tc k data_cycle names))
   \<and> (\<not> (k = 0 \<or> \<not> positive_multiple (to_micros data_cycle) (main_thread_data_cycle_micros tc)
           \<or> list_ex (owned_by_other_thread tc k) names)
    \<longrightarrow> (\<exists>tc'. associate_to_trick_child_thread tc k data_cycle names = Inr tc'
          \<and> any_thread_associated tc'
          \<and> association_of_thread tc' k =
              Some \<lparr>thread_id = k, data_cycle_micros = to_micros data_cycle,
                    owned_object_names = names\<rparr>
          \<and> thread_state tc' k = READY_TO_SEND))"
  by (simp add: associate_to_trick_child_thread_def Let_def association_of_thread_def
      find_filter_not find_append_if)

theorem associate_to_trick_child_thread_checks_witness:
  "isl (associate_to_trick_child_thread example_coordinator 0 (2 / 100) [''B''])
   \<and> isl (associate_to_trick_child_thread example_coordinator 2 (15 / 1000) [''B''])
   \<and> isl (associate_to_trick_child_thread example_coordinator 2 (2 / 100) [''B'', ''A''])
   \<and> (\<exists>tc'. associate_to_trick_child_thread example_coordinator 2 (3 / 100) [''B''] = Inr tc'
         \<and> any_thread_associated tc'
         \<and> association_of_thread tc' 2 =
             Some \<lparr>thread_id = 2, data_cycle_micros = 30000, owned_object_names = [''B'']\<rparr>
         \<and> thread_state tc' 2 = READY_TO_SEND)"
  using associate_to_trick_child_thread_checks [of 0 "2 / 100" example_coordinator "[''B'']"]
    associate_to_trick_child_thread_checks [of 2 "15 / 1000" example_coordinator "[''B'']"]
    associate_to_trick_child_thread_checks [of 2 "2 / 100" example_coordinator "[''B'', ''A'']"]
    associate_to_trick_child_thread_checks [of 2 "3 / 100" example_coordinator "[''B'']"]
  by (simp add: coordinator_defs Let_def)

text \<open>
  Claim C7. For an associated thread, \<open>on_data_cycle_boundary_for_thread\<close> holds exactly
  when the remainder of the simulation time by the thread's cycle is 0, with the
  truncated remainder of C++ and with the remainder of HOL alike. It is a function of
  the coordinator, the thread and the time, and returns no new coordinator.
\<close>

theorem on_data_cycle_boundary_for_thread_iff:
  "association_of_thread tc k = Some a \<Longrightarrow>
     (on_data_cycle_boundary_for_thread tc k t \<longleftrightarrow> t smod data_cycle_micros a = 0)
     \<and> (on_data_cycle_boundary_for_thread tc k t \<longleftrightarrow> t mod data_cycle_micros a = 0)"
  by (simp add: on_data_cycle_boundary_for_thread_def smod_zero_iff)

theorem on_data_cycle_boundary_for_thread_iff_witness:
  "association_of_thread example_coordinator 1 =
     Some \<lparr>thread_id = 1, data_cycle_micros = 20000, owned_object_names = [''A'']\<rparr>
   \<and> on_data_cycle_boundary_for_thread example_coordinator 1 40000
   \<and> \<not> on_data_cycle_boundary_for_thread example_coordinator 1 30000"
  using on_data_cycle_boundary_for_thread_iff [of example_coordinator 1
      "\<lparr>thread_id = 1, data_cycle_micros = 20000, owned_object_names = [''A'']\<rparr>" 40000]
    on_data_cycle_boundary_for_thread_iff [of example_coordinator 1
      "\<lparr>thread_id = 1, data_cycle_micros = 20000, owned_object_names = [''A'']\<rparr>" 30000]
  by (simp add: coordinator_defs)

text \<open>
  Claim C8, as the lookup with fallback has it. For an object that is not associated the
  result is the default; for an associated object it is the cycle of the object's
  thread, which is the default exactly when the two numbers are equal.
\<close>

theorem get_data_cycle_time_micros_for_obj_fallback:
  "(association_of_obj tc i = None \<longrightarrow> get_data_cycle_time_micros_for_obj tc i d = d)
   \<and> (\<forall>a. association_of_obj tc i = Some a \<longrightarrow>
          get_data_cycle_time_micros_for_obj tc i d = data_cycle_micros a
          \<and> (get_data_cycle_time_micros_for_obj tc i d = d \<longleftrightarrow> data_cycle_micros a = d))"
  by (simp add: get_data_cycle_time_micros_for_obj_def)

theorem get_data_cycle_time_micros_for_obj_fallback_witness:
  "get_data_cycle_time_micros_for_obj example_coordinator 1 10000 = 10000
   \<and> get_data_cycle_time_micros_for_obj example_coordinator 7 10000 = 10000
   \<and> get_data_cycle_time_micros_for_obj example_coordinator 0 10000 = 20000"
  using get_data_cycle_time_micros_for_obj_fallback [of example_coordinator 1 10000]
    get_data_cycle_time_micros_for_obj_fallback [of example_coordinator 7 10000]
    get_data_cycle_time_micros_for_obj_fallback [of example_coordinator 0 10000]
  by (simp add: coordinator_defs)

text \<open>
  Object 0 is associated, to a thread of cycle 20000; asked with the default 20000, the
  lookup returns the default.
\<close>

theorem get_data_cycle_time_micros_for_obj_default_when_associated:
  "association_of_obj example_coordinator 0 =
     Some \<lparr>thread_id = 1, data_cycle_micros = 20000, owned_object_names = [''A'']\<rparr>
   \<and> get_data_cycle_time_micros_for_obj example_coordinator 0 20000 = 20000"
  by (simp add: get_data_cycle_time_micros_for_obj_def coordinator_defs)

section \<open>Properties of the ownership handler\<close>

lemmas request_defs = enqueue_def pull_ownership_def pull_ownership_at_def
  pull_ownership_attr_def pull_ownership_attr_at_def push_ownership_def push_ownership_at_def
  push_ownership_attr_def push_ownership_attr_at_def

lemma initialize_callback_requests:
  "requests (initialize_callback obj h) = requests h @ mixed_script"
  by (simp add: initialize_callback_def initialize_callback_case_def TEST_CASE_def Let_def
      OwnershipHandler_initialize_callback_def request_defs mixed_script_def)

text \<open>
  Claim C6. \<open>initialize_callback\<close> appends the five requests of the mixed script, in the
  order of the calls; on a new handler they are the whole queue. They fire in that same
  order, the push without a time first, and at each of the scenario times 3, 5, 7 and 9
  exactly one request fires.
\<close>

theorem initialize_callback_mixed_script:
  "requests (initialize_callback obj h) = requests h @ mixed_script
   \<and> requests (initialize_callback obj new_handler) = mixed_script
   \<and> length mixed_script = 5
   \<and> firing_order (requests (initialize_callback obj new_handler)) = mixed_script
   \<and> hd (firing_order (requests (initialize_callback obj new_handler))) =
        \<lparr>attribute_name = None, action = PUSH, scenario_time = None\<rparr>
   \<and> fires_at 3 (requests (initialize_callback obj new_handler)) =
        [\<lparr>attribute_name = None, action = PULL, scenario_time = Some 3\<rparr>]
   \<and> fires_at 5 (requests (initialize_callback obj new_handler)) =
        [\<lparr>attribute_name = None, action = PUSH, scenario_time = Some 5\<rparr>]
   \<and> fires_at 7 (requests (initialize_callback obj new_handler)) =
        [\<lparr>attribute_name = None, action = PULL, scenario_time = Some 7\<rparr>]
   \<and> fires_at 9 (requests (initialize_callback obj new_handler)) =
        [\<lparr>attribute_name = Some ''Value'', action = PUSH, scenario_time = Some 9\<rparr>]"
  by (simp add: initialize_callback_requests new_handler_def)
     (simp add: mixed_script_def firing_order_def fires_at_def firing_key_def)

theorem initialize_callback_mixed_script_witness:
  "map action (requests (initialize_callback sine_object new_handler)) =
     [PUSH, PULL, PUSH, PULL, PUSH]
   \<and> map scenario_time (requests (initialize_callback sine_object new_handler)) =
     [None, Some 3, Some 5, Some 7, Some 9]
   \<and> map attribute_name (requests (initialize_callback sine_object new_handler)) =
     [None, None, None, None, Some ''Value'']"
  using initialize_callback_mixed_script [of sine_object new_handler]
  by (simp add: mixed_script_def new_handler_def)

end
